theory Spec2Isabelle
  imports Main
begin

section \<open>Gitea webhook parsing (scm/driver/gitea/webhook.go)\<close>

text \<open>
  The development follows \<^verbatim>\<open>webhook.go\<close> of the Gitea driver: the native payload
  structs, the conversion functions, the action mapper and \<^verbatim>\<open>Parse\<close>. Go strings and
  byte slices are both byte sequences and are modelled as \<^typ>\<open>string\<close>.
\<close>

type_synonym bytes = string

text \<open>
  \<^verbatim>\<open>time.Time\<close> is only copied by the code; \<open>0\<close> stands for Go's zero time.
\<close>

type_synonym time = int

subsection \<open>Types declared outside webhook.go\<close>

text \<open>
  Structs of the Gitea SDK (\<^verbatim>\<open>code.gitea.io/sdk/gitea\<close>). The source reads
  \<^verbatim>\<open>UserName\<close>, \<^verbatim>\<open>Email\<close> and \<^verbatim>\<open>FullName\<close> of a user and the \<^verbatim>\<open>PullRequest\<close>
  pointer of an issue; every other value is handed to a conversion function unread, and
  the remaining fields only tell values apart.
\<close>

record gitea_User =
  gitea_User_UserName :: string
  gitea_User_FullName :: string
  gitea_User_Email :: string
  gitea_User_AvatarURL :: string

record gitea_Repository =
  gitea_Repository_Owner :: "gitea_User option"
  gitea_Repository_Name :: string
  gitea_Repository_DefaultBranch :: string
  gitea_Repository_CloneURL :: string
  gitea_Repository_SSHURL :: string

record gitea_PullRequestMeta =
  gitea_PullRequestMeta_HasMerged :: bool

record gitea_Issue =
  gitea_Issue_Index :: int
  gitea_Issue_Title :: string
  gitea_Issue_Body :: string
  gitea_Issue_PullRequest :: "gitea_PullRequestMeta option"

record gitea_Comment =
  gitea_Comment_ID :: int
  gitea_Comment_Body :: string

record gitea_PullRequest =
  gitea_PullRequest_Index :: int
  gitea_PullRequest_Title :: string
  gitea_PullRequest_Body :: string

text \<open>
  The driver's own \<^verbatim>\<open>commit\<close> struct is declared in another file of the package;
  the fields are those \<^verbatim>\<open>convertPushHook\<close> reads.
\<close>

record signature =
  signature_Name :: string
  signature_Email :: string
  signature_Username :: string

record commit =
  commit_Message :: string
  commit_Author :: signature
  commit_Committer :: signature
  commit_Timestamp :: time

text \<open>
  Modelled from the spec: the canonical types of package \<^verbatim>\<open>scm\<close> are not part of the
  sources at hand. The action enumeration is the one of the data model, with \<open>Unknown\<close>
  as the zero value; a repository snapshot has namespace, name, default branch and clone
  URLs; a user snapshot has login, display name, email and avatar URL. The hook structs
  below have exactly the fields that the composite literals of \<^verbatim>\<open>webhook.go\<close> set.
\<close>

datatype Action =
    ActionUnknown
  | ActionCreate
  | ActionUpdate
  | ActionDelete
  | ActionOpen
  | ActionReopen
  | ActionClose
  | ActionLabel
  | ActionUnlabel
  | ActionSync
  | ActionMerge
  | ActionAssigned
  | ActionUnassigned
  | ActionSubmitted
  | ActionDismissed
  | ActionEdited

record scm_User =
  User_Login :: string
  User_Name :: string
  User_Email :: string
  User_Avatar :: string

record scm_Repository =
  Repository_Namespace :: string
  Repository_Name :: string
  Repository_Branch :: string
  Repository_Clone :: string
  Repository_CloneSSH :: string

record scm_Issue =
  Issue_Number :: int
  Issue_Title :: string
  Issue_Body :: string

record scm_Comment =
  Comment_ID :: int
  Comment_Body :: string

record scm_PullRequest =
  PullRequest_Number :: int
  PullRequest_Title :: string
  PullRequest_Body :: string

record scm_Signature =
  Signature_Login :: string
  Signature_Email :: string
  Signature_Name :: string
  Signature_Date :: time

record scm_Commit =
  Commit_Sha :: string
  Commit_Message :: string
  Commit_Link :: string
  Commit_Author :: scm_Signature
  Commit_Committer :: scm_Signature

record scm_Reference =
  Reference_Name :: string
  Reference_Sha :: string

record scm_Review =
  Review_Body :: string
  Review_Author :: scm_User

record scm_PushHook =
  PushHook_Ref :: string
  PushHook_Commit :: scm_Commit
  PushHook_Repo :: scm_Repository
  PushHook_Sender :: scm_User

record scm_BranchHook =
  BranchHook_Action :: Action
  BranchHook_Ref :: scm_Reference
  BranchHook_Repo :: scm_Repository
  BranchHook_Sender :: scm_User

record scm_TagHook =
  TagHook_Action :: Action
  TagHook_Ref :: scm_Reference
  TagHook_Repo :: scm_Repository
  TagHook_Sender :: scm_User

record scm_IssueHook =
  IssueHook_Action :: Action
  IssueHook_Issue :: scm_Issue
  IssueHook_Repo :: scm_Repository
  IssueHook_Sender :: scm_User

record scm_IssueCommentHook =
  IssueCommentHook_Action :: Action
  IssueCommentHook_Issue :: scm_Issue
  IssueCommentHook_Comment :: scm_Comment
  IssueCommentHook_Repo :: scm_Repository
  IssueCommentHook_Sender :: scm_User

record scm_PullRequestHook =
  PullRequestHook_Action :: Action
  PullRequestHook_PullRequest :: scm_PullRequest
  PullRequestHook_Repo :: scm_Repository
  PullRequestHook_Sender :: scm_User

record scm_PullRequestCommentHook =
  PullRequestCommentHook_Action :: Action
  PullRequestCommentHook_PullRequest :: scm_PullRequest
  PullRequestCommentHook_Comment :: scm_Comment
  PullRequestCommentHook_Repo :: scm_Repository
  PullRequestCommentHook_Sender :: scm_User

record scm_ReviewHook =
  ReviewHook_Action :: Action
  ReviewHook_PullRequest :: scm_PullRequest
  ReviewHook_Repo :: scm_Repository
  ReviewHook_Review :: scm_Review

text \<open>
  A value of the interface \<^verbatim>\<open>scm.Webhook\<close>: one constructor for each dynamic type
  that \<^verbatim>\<open>Parse\<close> returns. The nil interface is \<open>None\<close> of \<open>Webhook option\<close>.
\<close>

datatype Webhook =
    PushHook scm_PushHook
  | BranchHook scm_BranchHook
  | TagHook scm_TagHook
  | IssueHook scm_IssueHook
  | IssueCommentHook scm_IssueCommentHook
  | PullRequestHook scm_PullRequestHook
  | PullRequestCommentHook scm_PullRequestCommentHook
  | ReviewHook scm_ReviewHook

text \<open>
  Go errors. \<^verbatim>\<open>scm.UnknownWebhook{Event: e}\<close> and \<^verbatim>\<open>scm.ErrSignatureInvalid\<close> are the
  two errors \<^verbatim>\<open>Parse\<close> creates; \<open>OtherError\<close> is any error value that reaches it from
  outside (the body stream, \<^verbatim>\<open>json.Unmarshal\<close>, the secret resolver).
\<close>

datatype error =
    UnknownWebhook string
  | ErrSignatureInvalid
  | OtherError string

subsection \<open>Native data structures (webhook.go, lines 156-213)\<close>

record pushHook =
  pushHook_Secret :: string
  pushHook_Ref :: string
  pushHook_Before :: string
  pushHook_After :: string
  pushHook_Compare :: string
  pushHook_Commits :: "commit list"
  pushHook_Repository :: gitea_Repository
  pushHook_Pusher :: gitea_User
  pushHook_Sender :: gitea_User

record createHook =
  createHook_Ref :: string
  createHook_RefType :: string
  createHook_Sha :: string
  createHook_DefaultBranch :: string
  createHook_Repository :: gitea_Repository
  createHook_Sender :: gitea_User

record issueHook =
  issueHook_Action :: string
  issueHook_Issue :: gitea_Issue
  issueHook_Comment :: gitea_Comment
  issueHook_Repository :: gitea_Repository
  issueHook_Sender :: gitea_User

record pullRequestHook =
  pullRequestHook_Action :: string
  pullRequestHook_Number :: int
  pullRequestHook_PullRequest :: gitea_PullRequest
  pullRequestHook_Repository :: gitea_Repository
  pullRequestHook_Sender :: gitea_User

record pullRequestReviewPayload =
  pullRequestReviewPayload_Type :: string
  pullRequestReviewPayload_Content :: string

record pullRequestReviewHook =
  pullRequestReviewHook_Action :: string
  pullRequestReviewHook_Number :: int
  pullRequestReviewHook_PullRequest :: gitea_PullRequest
  pullRequestReviewHook_Repository :: gitea_Repository
  pullRequestReviewHook_Sender :: gitea_User
  pullRequestReviewHook_Review :: pullRequestReviewPayload

subsection \<open>Action mapping (lines 342-386)\<close>

definition convertReviewAction :: "string \<Rightarrow> Action" where
  "convertReviewAction src =
     (if src = ''pull_request_review_approved'' then ActionSubmitted
      else if src = ''pull_request_review_comment'' then ActionEdited
      else if src = ''pull_request_review_rejected'' then ActionDismissed
      else ActionUnknown)"

definition convertAction :: "string \<Rightarrow> Action" where
  "convertAction src =
     (if src = ''create'' \<or> src = ''created'' then ActionCreate
      else if src = ''delete'' \<or> src = ''deleted'' then ActionDelete
      else if src = ''update'' \<or> src = ''updated'' \<or> src = ''edit'' \<or> src = ''edited''
        then ActionUpdate
      else if src = ''open'' \<or> src = ''opened'' then ActionOpen
      else if src = ''reopen'' \<or> src = ''reopened'' then ActionReopen
      else if src = ''close'' \<or> src = ''closed'' then ActionClose
      else if src = ''label'' \<or> src = ''labeled'' \<or> src = ''label_updated'' then ActionLabel
      else if src = ''unlabel'' \<or> src = ''unlabeled'' \<or> src = ''label_cleared''
        then ActionUnlabel
      else if src = ''merge'' \<or> src = ''merged'' then ActionMerge
      else if src = ''synchronize'' \<or> src = ''synchronized'' then ActionSync
      else if src = ''assigned'' then ActionAssigned
      else if src = ''unassigned'' then ActionUnassigned
      else if src = ''reviewed'' then ActionSubmitted
      else ActionUnknown)"

text \<open>The case labels of \<^verbatim>\<open>convertAction\<close>, in the order of the source.\<close>

definition convertAction_verbs :: "string list" where
  "convertAction_verbs =
     [''create'', ''created'', ''delete'', ''deleted'',
      ''update'', ''updated'', ''edit'', ''edited'',
      ''open'', ''opened'', ''reopen'', ''reopened'', ''close'', ''closed'',
      ''label'', ''labeled'', ''label_updated'',
      ''unlabel'', ''unlabeled'', ''label_cleared'',
      ''merge'', ''merged'', ''synchronize'', ''synchronized'',
      ''assigned'', ''unassigned'', ''reviewed'']"

subsection \<open>Collaborators\<close>

text \<open>
  What \<^verbatim>\<open>webhook.go\<close> calls but does not define. \<^verbatim>\<open>json.Unmarshal(data, dst)\<close> on a
  freshly allocated struct is a function from the bytes to the struct as it is after the
  call and the error returned (a failed decode may leave the struct partly filled).
  \<^verbatim>\<open>hmac.Validate(sha256.New, message, key, signature)\<close> comes from package
  \<^verbatim>\<open>pkg/hmac\<close>. The six conversion functions live in other files of the driver; the
  source dereferences their result at every call, so the model takes the value pointed to.
  All of them are parameters: every theorem below holds for whatever they compute.
\<close>

record collaborators =
  json_Unmarshal_pushHook :: "bytes \<Rightarrow> pushHook \<times> error option"
  json_Unmarshal_createHook :: "bytes \<Rightarrow> createHook \<times> error option"
  json_Unmarshal_issueHook :: "bytes \<Rightarrow> issueHook \<times> error option"
  json_Unmarshal_pullRequestHook :: "bytes \<Rightarrow> pullRequestHook \<times> error option"
  json_Unmarshal_pullRequestReviewHook :: "bytes \<Rightarrow> pullRequestReviewHook \<times> error option"
  hmac_Validate :: "bytes \<Rightarrow> bytes \<Rightarrow> string \<Rightarrow> bool"
  convertRepository :: "gitea_Repository \<Rightarrow> scm_Repository"
  convertUser :: "gitea_User \<Rightarrow> scm_User"
  convertIssue :: "gitea_Issue \<Rightarrow> scm_Issue"
  convertIssueComment :: "gitea_Comment \<Rightarrow> scm_Comment"
  convertPullRequest :: "gitea_PullRequest \<Rightarrow> scm_PullRequest"
  convertPullRequestFromIssue :: "gitea_Issue \<Rightarrow> scm_PullRequest"

text \<open>
  The secret resolver \<^verbatim>\<open>scm.SecretFunc\<close>: from the parsed hook to the key and an error.
\<close>

type_synonym SecretFunc = "Webhook option \<Rightarrow> string \<times> error option"

text \<open>
  The part of \<^verbatim>\<open>*http.Request\<close> that \<^verbatim>\<open>Parse\<close> uses. \<open>Body\<close> is what the body stream
  delivers, and \<open>BodyErr\<close> the error with which a read after the last byte ends, if it
  does not end with EOF. \<open>Header\<close> maps a canonical header name to its values and
  \<open>FormValue\<close> is the result of \<^verbatim>\<open>req.FormValue\<close> for each key, as \<^verbatim>\<open>net/http\<close>
  computes it for the request.
\<close>

record request =
  Body :: bytes
  BodyErr :: "error option"
  Header :: "string \<Rightarrow> string list"
  FormValue :: "string \<Rightarrow> string"

definition Header_Get :: "request \<Rightarrow> string \<Rightarrow> string" where
  "Header_Get req key = (case Header req key of [] \<Rightarrow> '''' | v # _ \<Rightarrow> v)"

text \<open>
  \<^verbatim>\<open>ioutil.ReadAll(io.LimitReader(req.Body, n))\<close>: the limited reader reports EOF once
  \<open>n\<close> bytes have been delivered and does not touch the stream again.
\<close>

definition ReadAll_LimitReader :: "request \<Rightarrow> nat \<Rightarrow> bytes \<times> error option" where
  "ReadAll_LimitReader req n =
     (if n \<le> length (Body req) then (take n (Body req), None)
      else (Body req, BodyErr req))"

subsection \<open>Native data structure conversion (lines 219-340)\<close>

definition convertTagHook :: "collaborators \<Rightarrow> createHook \<Rightarrow> Action \<Rightarrow> scm_TagHook" where
  "convertTagHook s dst action =
     \<lparr> TagHook_Action = action,
       TagHook_Ref = \<lparr> Reference_Name = createHook_Ref dst, Reference_Sha = createHook_Sha dst \<rparr>,
       TagHook_Repo = convertRepository s (createHook_Repository dst),
       TagHook_Sender = convertUser s (createHook_Sender dst) \<rparr>"

text \<open>A field that a composite literal leaves out has Go's zero value.\<close>

definition convertBranchHook :: "collaborators \<Rightarrow> createHook \<Rightarrow> Action \<Rightarrow> scm_BranchHook" where
  "convertBranchHook s dst action =
     \<lparr> BranchHook_Action = action,
       BranchHook_Ref = \<lparr> Reference_Name = createHook_Ref dst, Reference_Sha = '''' \<rparr>,
       BranchHook_Repo = convertRepository s (createHook_Repository dst),
       BranchHook_Sender = convertUser s (createHook_Sender dst) \<rparr>"

definition convertPushHook :: "collaborators \<Rightarrow> pushHook \<Rightarrow> scm_PushHook" where
  "convertPushHook s dst =
     (case pushHook_Commits dst of
        c0 # _ \<Rightarrow>
          \<lparr> PushHook_Ref = pushHook_Ref dst,
            PushHook_Commit =
              \<lparr> Commit_Sha = pushHook_After dst,
                Commit_Message = commit_Message c0,
                Commit_Link = pushHook_Compare dst,
                Commit_Author =
                  \<lparr> Signature_Login = signature_Username (commit_Author c0),
                    Signature_Email = signature_Email (commit_Author c0),
                    Signature_Name = signature_Name (commit_Author c0),
                    Signature_Date = commit_Timestamp c0 \<rparr>,
                Commit_Committer =
                  \<lparr> Signature_Login = signature_Username (commit_Committer c0),
                    Signature_Email = signature_Email (commit_Committer c0),
                    Signature_Name = signature_Name (commit_Committer c0),
                    Signature_Date = commit_Timestamp c0 \<rparr> \<rparr>,
            PushHook_Repo = convertRepository s (pushHook_Repository dst),
            PushHook_Sender = convertUser s (pushHook_Sender dst) \<rparr>
      | [] \<Rightarrow>
          \<lparr> PushHook_Ref = pushHook_Ref dst,
            PushHook_Commit =
              \<lparr> Commit_Sha = pushHook_After dst,
                Commit_Message = '''',
                Commit_Link = pushHook_Compare dst,
                Commit_Author =
                  \<lparr> Signature_Login = gitea_User_UserName (pushHook_Pusher dst),
                    Signature_Email = gitea_User_Email (pushHook_Pusher dst),
                    Signature_Name = gitea_User_FullName (pushHook_Pusher dst),
                    Signature_Date = 0 \<rparr>,
                Commit_Committer =
                  \<lparr> Signature_Login = gitea_User_UserName (pushHook_Pusher dst),
                    Signature_Email = gitea_User_Email (pushHook_Pusher dst),
                    Signature_Name = gitea_User_FullName (pushHook_Pusher dst),
                    Signature_Date = 0 \<rparr> \<rparr>,
            PushHook_Repo = convertRepository s (pushHook_Repository dst),
            PushHook_Sender = convertUser s (pushHook_Sender dst) \<rparr>)"

definition convertPullRequestHook :: "collaborators \<Rightarrow> pullRequestHook \<Rightarrow> scm_PullRequestHook" where
  "convertPullRequestHook s dst =
     \<lparr> PullRequestHook_Action = convertAction (pullRequestHook_Action dst),
       PullRequestHook_PullRequest = convertPullRequest s (pullRequestHook_PullRequest dst),
       PullRequestHook_Repo = convertRepository s (pullRequestHook_Repository dst),
       PullRequestHook_Sender = convertUser s (pullRequestHook_Sender dst) \<rparr>"

definition convertPullRequestReviewPayload :: "collaborators \<Rightarrow> pullRequestReviewHook \<Rightarrow> scm_Review" where
  "convertPullRequestReviewPayload s dst =
     \<lparr> Review_Body = pullRequestReviewPayload_Content (pullRequestReviewHook_Review dst),
       Review_Author = convertUser s (pullRequestReviewHook_Sender dst) \<rparr>"

definition convertPullRequestReviewHook :: "collaborators \<Rightarrow> pullRequestReviewHook \<Rightarrow> scm_ReviewHook" where
  "convertPullRequestReviewHook s dst =
     \<lparr> ReviewHook_Action =
         convertReviewAction (pullRequestReviewPayload_Type (pullRequestReviewHook_Review dst)),
       ReviewHook_PullRequest = convertPullRequest s (pullRequestReviewHook_PullRequest dst),
       ReviewHook_Repo = convertRepository s (pullRequestReviewHook_Repository dst),
       ReviewHook_Review = convertPullRequestReviewPayload s dst \<rparr>"

definition convertPullRequestCommentHook :: "collaborators \<Rightarrow> issueHook \<Rightarrow> scm_PullRequestCommentHook" where
  "convertPullRequestCommentHook s dst =
     \<lparr> PullRequestCommentHook_Action = convertAction (issueHook_Action dst),
       PullRequestCommentHook_PullRequest = convertPullRequestFromIssue s (issueHook_Issue dst),
       PullRequestCommentHook_Comment = convertIssueComment s (issueHook_Comment dst),
       PullRequestCommentHook_Repo = convertRepository s (issueHook_Repository dst),
       PullRequestCommentHook_Sender = convertUser s (issueHook_Sender dst) \<rparr>"

definition convertIssueHook :: "collaborators \<Rightarrow> issueHook \<Rightarrow> scm_IssueHook" where
  "convertIssueHook s dst =
     \<lparr> IssueHook_Action = convertAction (issueHook_Action dst),
       IssueHook_Issue = convertIssue s (issueHook_Issue dst),
       IssueHook_Repo = convertRepository s (issueHook_Repository dst),
       IssueHook_Sender = convertUser s (issueHook_Sender dst) \<rparr>"

definition convertIssueCommentHook :: "collaborators \<Rightarrow> issueHook \<Rightarrow> scm_IssueCommentHook" where
  "convertIssueCommentHook s dst =
     \<lparr> IssueCommentHook_Action = convertAction (issueHook_Action dst),
       IssueCommentHook_Issue = convertIssue s (issueHook_Issue dst),
       IssueCommentHook_Comment = convertIssueComment s (issueHook_Comment dst),
       IssueCommentHook_Repo = convertRepository s (issueHook_Repository dst),
       IssueCommentHook_Sender = convertUser s (issueHook_Sender dst) \<rparr>"

subsection \<open>Decoding one event kind (lines 93-150)\<close>

text \<open>
  Each function decodes into a new struct, converts it whatever the decoder said, and
  returns the hook with the decoder's error.
\<close>

definition parsePushHook :: "collaborators \<Rightarrow> bytes \<Rightarrow> Webhook option \<times> pushHook \<times> error option" where
  "parsePushHook s data =
     (case json_Unmarshal_pushHook s data of
        (dst, err) \<Rightarrow> (Some (PushHook (convertPushHook s dst)), dst, err))"

definition parseCreateHook :: "collaborators \<Rightarrow> bytes \<Rightarrow> Webhook option \<times> error option" where
  "parseCreateHook s data =
     (case json_Unmarshal_createHook s data of
        (dst, err) \<Rightarrow>
          if createHook_RefType dst = ''tag''
            then (Some (TagHook (convertTagHook s dst ActionCreate)), err)
          else if createHook_RefType dst = ''branch''
            then (Some (BranchHook (convertBranchHook s dst ActionCreate)), err)
          else (None, Some (UnknownWebhook (createHook_RefType dst))))"

definition parseDeleteHook :: "collaborators \<Rightarrow> bytes \<Rightarrow> Webhook option \<times> error option" where
  "parseDeleteHook s data =
     (case json_Unmarshal_createHook s data of
        (dst, err) \<Rightarrow>
          if createHook_RefType dst = ''tag''
            then (Some (TagHook (convertTagHook s dst ActionDelete)), err)
          else if createHook_RefType dst = ''branch''
            then (Some (BranchHook (convertBranchHook s dst ActionDelete)), err)
          else (None, Some (UnknownWebhook (createHook_RefType dst))))"

definition parseIssueHook :: "collaborators \<Rightarrow> bytes \<Rightarrow> Webhook option \<times> error option" where
  "parseIssueHook s data =
     (case json_Unmarshal_issueHook s data of
        (dst, err) \<Rightarrow> (Some (IssueHook (convertIssueHook s dst)), err))"

definition parseIssueCommentHook :: "collaborators \<Rightarrow> bytes \<Rightarrow> Webhook option \<times> error option" where
  "parseIssueCommentHook s data =
     (case json_Unmarshal_issueHook s data of
        (dst, err) \<Rightarrow>
          if gitea_Issue_PullRequest (issueHook_Issue dst) \<noteq> None
            then (Some (PullRequestCommentHook (convertPullRequestCommentHook s dst)), err)
          else (Some (IssueCommentHook (convertIssueCommentHook s dst)), err))"

definition parsePullRequestHook :: "collaborators \<Rightarrow> bytes \<Rightarrow> Webhook option \<times> error option" where
  "parsePullRequestHook s data =
     (case json_Unmarshal_pullRequestHook s data of
        (dst, err) \<Rightarrow> (Some (PullRequestHook (convertPullRequestHook s dst)), err))"

definition parsePullRequestReviewHook :: "collaborators \<Rightarrow> bytes \<Rightarrow> Webhook option \<times> error option" where
  "parsePullRequestReviewHook s data =
     (case json_Unmarshal_pullRequestReviewHook s data of
        (dst, err) \<Rightarrow> (Some (ReviewHook (convertPullRequestReviewHook s dst)), err))"

subsection \<open>Parse (lines 24-91)\<close>

text \<open>
  The switch on the event header (lines 32-54). \<open>Inl\<close> is the return of the default
  branch; \<open>Inr\<close> carries \<open>hook\<close>, \<open>secret\<close> and \<open>err\<close> as they are after the switch.
  Only the push branch assigns \<open>secret\<close>.
\<close>

definition Parse_switch ::
  "collaborators \<Rightarrow> string \<Rightarrow> bytes \<Rightarrow> error + (Webhook option \<times> string \<times> error option)" where
  "Parse_switch s event data =
     (if event = ''push'' then
        (case parsePushHook s data of (hook, push, err) \<Rightarrow> Inr (hook, pushHook_Secret push, err))
      else if event = ''create'' then
        (case parseCreateHook s data of (hook, err) \<Rightarrow> Inr (hook, '''', err))
      else if event = ''delete'' then
        (case parseDeleteHook s data of (hook, err) \<Rightarrow> Inr (hook, '''', err))
      else if event = ''issues'' then
        (case parseIssueHook s data of (hook, err) \<Rightarrow> Inr (hook, '''', err))
      else if event = ''issue_comment'' then
        (case parseIssueCommentHook s data of (hook, err) \<Rightarrow> Inr (hook, '''', err))
      else if event = ''pull_request'' then
        (case parsePullRequestHook s data of (hook, err) \<Rightarrow> Inr (hook, '''', err))
      else if event = ''reviewed'' then
        (case parsePullRequestReviewHook s data of (hook, err) \<Rightarrow> Inr (hook, '''', err))
      else Inl (UnknownWebhook event))"

text \<open>
  Lines 59-90: the form value stands in for an empty embedded secret, the resolver is
  asked for the key, and the three signature tests follow in the order of the source.
\<close>

definition Parse_verify ::
  "collaborators \<Rightarrow> request \<Rightarrow> SecretFunc \<Rightarrow> bytes \<Rightarrow> Webhook option \<Rightarrow> string
     \<Rightarrow> Webhook option \<times> error option" where
  "Parse_verify s req fn data hook secret0 =
     (let secret = (if secret0 = '''' then FormValue req ''secret'' else secret0) in
      case fn hook of
        (key, Some err) \<Rightarrow> (hook, Some err)
      | (key, None) \<Rightarrow>
          if key = '''' then (hook, None)
          else
            (let signature = Header_Get req ''X-Gitea-Signature'' in
             if signature = '''' \<and> secret = '''' then (hook, Some ErrSignatureInvalid)
             else if signature = '''' \<and> secret \<noteq> '''' \<and> secret \<noteq> key
               then (hook, Some ErrSignatureInvalid)
             else if signature \<noteq> '''' \<and> \<not> hmac_Validate s data key signature
               then (hook, Some ErrSignatureInvalid)
             else (hook, None)))"

definition Parse :: "collaborators \<Rightarrow> request \<Rightarrow> SecretFunc \<Rightarrow> Webhook option \<times> error option" where
  "Parse s req fn =
     (case ReadAll_LimitReader req 10000000 of
        (data, Some err) \<Rightarrow> (None, Some err)
      | (data, None) \<Rightarrow>
          (case Parse_switch s (Header_Get req ''X-Gitea-Event'') data of
             Inl e \<Rightarrow> (None, Some e)
           | Inr (hook, secret, Some err) \<Rightarrow> (None, Some err)
           | Inr (hook, secret, None) \<Rightarrow> Parse_verify s req fn data hook secret))"

subsection \<open>What the claims speak about\<close>

text \<open>The case labels of the switch in \<^verbatim>\<open>Parse\<close>.\<close>

definition supported_events :: "string list" where
  "supported_events =
     [''push'', ''create'', ''delete'', ''issues'', ''issue_comment'', ''pull_request'',
      ''reviewed'']"

text \<open>
  The \<^verbatim>\<open>Repo\<close> field of a hook, and its \<^verbatim>\<open>Sender\<close> field where the literal that
  builds the hook sets one. The literal of a review hook sets none.
\<close>

fun Webhook_Repo :: "Webhook \<Rightarrow> scm_Repository" where
  "Webhook_Repo (PushHook h) = PushHook_Repo h"
| "Webhook_Repo (BranchHook h) = BranchHook_Repo h"
| "Webhook_Repo (TagHook h) = TagHook_Repo h"
| "Webhook_Repo (IssueHook h) = IssueHook_Repo h"
| "Webhook_Repo (IssueCommentHook h) = IssueCommentHook_Repo h"
| "Webhook_Repo (PullRequestHook h) = PullRequestHook_Repo h"
| "Webhook_Repo (PullRequestCommentHook h) = PullRequestCommentHook_Repo h"
| "Webhook_Repo (ReviewHook h) = ReviewHook_Repo h"

fun Webhook_Sender :: "Webhook \<Rightarrow> scm_User option" where
  "Webhook_Sender (PushHook h) = Some (PushHook_Sender h)"
| "Webhook_Sender (BranchHook h) = Some (BranchHook_Sender h)"
| "Webhook_Sender (TagHook h) = Some (TagHook_Sender h)"
| "Webhook_Sender (IssueHook h) = Some (IssueHook_Sender h)"
| "Webhook_Sender (IssueCommentHook h) = Some (IssueCommentHook_Sender h)"
| "Webhook_Sender (PullRequestHook h) = Some (PullRequestHook_Sender h)"
| "Webhook_Sender (PullRequestCommentHook h) = Some (PullRequestCommentHook_Sender h)"
| "Webhook_Sender (ReviewHook h) = None"

text \<open>
  The \<^verbatim>\<open>repository\<close> and \<^verbatim>\<open>sender\<close> of the payload, as the decoder of the event kind
  leaves them in the native struct.
\<close>

definition payload_Repository :: "collaborators \<Rightarrow> string \<Rightarrow> bytes \<Rightarrow> gitea_Repository" where
  "payload_Repository s event data =
     (if event = ''push'' then pushHook_Repository (fst (json_Unmarshal_pushHook s data))
      else if event = ''create'' \<or> event = ''delete''
        then createHook_Repository (fst (json_Unmarshal_createHook s data))
      else if event = ''issues'' \<or> event = ''issue_comment''
        then issueHook_Repository (fst (json_Unmarshal_issueHook s data))
      else if event = ''pull_request''
        then pullRequestHook_Repository (fst (json_Unmarshal_pullRequestHook s data))
      else pullRequestReviewHook_Repository (fst (json_Unmarshal_pullRequestReviewHook s data)))"

definition payload_Sender :: "collaborators \<Rightarrow> string \<Rightarrow> bytes \<Rightarrow> gitea_User" where
  "payload_Sender s event data =
     (if event = ''push'' then pushHook_Sender (fst (json_Unmarshal_pushHook s data))
      else if event = ''create'' \<or> event = ''delete''
        then createHook_Sender (fst (json_Unmarshal_createHook s data))
      else if event = ''issues'' \<or> event = ''issue_comment''
        then issueHook_Sender (fst (json_Unmarshal_issueHook s data))
      else if event = ''pull_request''
        then pullRequestHook_Sender (fst (json_Unmarshal_pullRequestHook s data))
      else pullRequestReviewHook_Sender (fst (json_Unmarshal_pullRequestReviewHook s data)))"

subsection \<open>Example deliveries\<close>

text \<open>Go's zero values, as \<^verbatim>\<open>new(T)\<close> allocates them.\<close>

definition zero_gitea_User :: gitea_User where
  "zero_gitea_User =
     \<lparr> gitea_User_UserName = '''', gitea_User_FullName = '''', gitea_User_Email = '''',
       gitea_User_AvatarURL = '''' \<rparr>"

definition zero_gitea_Repository :: gitea_Repository where
  "zero_gitea_Repository =
     \<lparr> gitea_Repository_Owner = None, gitea_Repository_Name = '''',
       gitea_Repository_DefaultBranch = '''', gitea_Repository_CloneURL = '''',
       gitea_Repository_SSHURL = '''' \<rparr>"

definition zero_gitea_Issue :: gitea_Issue where
  "zero_gitea_Issue =
     \<lparr> gitea_Issue_Index = 0, gitea_Issue_Title = '''', gitea_Issue_Body = '''',
       gitea_Issue_PullRequest = None \<rparr>"

definition zero_gitea_Comment :: gitea_Comment where
  "zero_gitea_Comment = \<lparr> gitea_Comment_ID = 0, gitea_Comment_Body = '''' \<rparr>"

definition zero_gitea_PullRequest :: gitea_PullRequest where
  "zero_gitea_PullRequest =
     \<lparr> gitea_PullRequest_Index = 0, gitea_PullRequest_Title = '''',
       gitea_PullRequest_Body = '''' \<rparr>"

definition new_pushHook :: pushHook where
  "new_pushHook =
     \<lparr> pushHook_Secret = '''', pushHook_Ref = '''', pushHook_Before = '''',
       pushHook_After = '''', pushHook_Compare = '''', pushHook_Commits = [],
       pushHook_Repository = zero_gitea_Repository, pushHook_Pusher = zero_gitea_User,
       pushHook_Sender = zero_gitea_User \<rparr>"

definition new_createHook :: createHook where
  "new_createHook =
     \<lparr> createHook_Ref = '''', createHook_RefType = '''', createHook_Sha = '''',
       createHook_DefaultBranch = '''', createHook_Repository = zero_gitea_Repository,
       createHook_Sender = zero_gitea_User \<rparr>"

definition new_issueHook :: issueHook where
  "new_issueHook =
     \<lparr> issueHook_Action = '''', issueHook_Issue = zero_gitea_Issue,
       issueHook_Comment = zero_gitea_Comment, issueHook_Repository = zero_gitea_Repository,
       issueHook_Sender = zero_gitea_User \<rparr>"

definition new_pullRequestHook :: pullRequestHook where
  "new_pullRequestHook =
     \<lparr> pullRequestHook_Action = '''', pullRequestHook_Number = 0,
       pullRequestHook_PullRequest = zero_gitea_PullRequest,
       pullRequestHook_Repository = zero_gitea_Repository,
       pullRequestHook_Sender = zero_gitea_User \<rparr>"

definition new_pullRequestReviewHook :: pullRequestReviewHook where
  "new_pullRequestReviewHook =
     \<lparr> pullRequestReviewHook_Action = '''', pullRequestReviewHook_Number = 0,
       pullRequestReviewHook_PullRequest = zero_gitea_PullRequest,
       pullRequestReviewHook_Repository = zero_gitea_Repository,
       pullRequestReviewHook_Sender = zero_gitea_User,
       pullRequestReviewHook_Review =
         \<lparr> pullRequestReviewPayload_Type = '''', pullRequestReviewPayload_Content = '''' \<rparr> \<rparr>"

text \<open>
  A decoder given by a finite table, to run the model on the bodies below: a body of the
  table decodes without error to the struct beside it, and on any other body the new
  struct keeps its zero value and a syntax error is reported.
\<close>

definition Unmarshal_table :: "'a \<Rightarrow> (bytes \<times> 'a) list \<Rightarrow> bytes \<Rightarrow> 'a \<times> error option" where
  "Unmarshal_table zero table data =
     (case map_of table data of
        Some dst \<Rightarrow> (dst, None)
      | None \<Rightarrow> (zero, Some (OtherError ''invalid character'')))"

definition alice :: gitea_User where
  "alice = zero_gitea_User \<lparr> gitea_User_UserName := ''alice'' \<rparr>"

definition hello :: gitea_Repository where
  "hello = zero_gitea_Repository \<lparr> gitea_Repository_Name := ''hello'' \<rparr>"

definition push_body :: bytes where
  \<open>push_body =
     ''{"secret":"topsecret","ref":"refs/heads/main","commits":[],"repository":{"name":"hello"},"pusher":{"login":"alice","username":"alice"},"sender":{"login":"alice","username":"alice"}}''\<close>

definition push_payload :: pushHook where
  "push_payload =
     new_pushHook \<lparr> pushHook_Secret := ''topsecret'', pushHook_Ref := ''refs/heads/main'',
       pushHook_Repository := hello, pushHook_Pusher := alice, pushHook_Sender := alice \<rparr>"

text \<open>
  The same payload followed by ten million spaces, which JSON allows after the value: a
  body longer than the cap whose first 10,000,000 bytes are still the payload.
\<close>

definition padded_push_body :: bytes where
  "padded_push_body = push_body @ replicate 10000000 (CHR '' '')"

definition bob_commit :: commit where
  "bob_commit =
     \<lparr> commit_Message = ''fix typo'',
       commit_Author =
         \<lparr> signature_Name = ''Bob'', signature_Email = ''bob@example.com'',
           signature_Username = ''bob'' \<rparr>,
       commit_Committer =
         \<lparr> signature_Name = ''Carol'', signature_Email = ''carol@example.com'',
           signature_Username = ''carol'' \<rparr>,
       commit_Timestamp = 1500000000 \<rparr>"

definition create_tag_body :: bytes where
  \<open>create_tag_body =
     ''{"ref":"v1.0.0","ref_type":"tag","sha":"2f1c","repository":{"name":"hello"},"sender":{"login":"alice","username":"alice"}}''\<close>

definition create_tag_payload :: createHook where
  "create_tag_payload =
     new_createHook \<lparr> createHook_Ref := ''v1.0.0'', createHook_RefType := ''tag'',
       createHook_Sha := ''2f1c'', createHook_Repository := hello,
       createHook_Sender := alice \<rparr>"

definition create_repository_body :: bytes where
  \<open>create_repository_body = ''{"ref":"hello","ref_type":"repository"}''\<close>

definition create_repository_payload :: createHook where
  "create_repository_payload =
     new_createHook \<lparr> createHook_Ref := ''hello'', createHook_RefType := ''repository'' \<rparr>"

definition pull_comment_body :: bytes where
  \<open>pull_comment_body =
     ''{"action":"created","issue":{"number":1,"pull_request":{"merged":false}},"comment":{"id":7,"body":"ok"},"repository":{"name":"hello"},"sender":{"login":"alice","username":"alice"}}''\<close>

definition pull_comment_payload :: issueHook where
  "pull_comment_payload =
     new_issueHook \<lparr> issueHook_Action := ''created'',
       issueHook_Issue :=
         zero_gitea_Issue \<lparr> gitea_Issue_Index := 1,
           gitea_Issue_PullRequest := Some \<lparr> gitea_PullRequestMeta_HasMerged = False \<rparr> \<rparr>,
       issueHook_Comment := \<lparr> gitea_Comment_ID = 7, gitea_Comment_Body = ''ok'' \<rparr>,
       issueHook_Repository := hello, issueHook_Sender := alice \<rparr>"

definition issue_comment_body :: bytes where
  \<open>issue_comment_body =
     ''{"action":"created","issue":{"number":2},"comment":{"id":8,"body":"ok"},"repository":{"name":"hello"},"sender":{"login":"alice","username":"alice"}}''\<close>

definition issue_comment_payload :: issueHook where
  "issue_comment_payload =
     new_issueHook \<lparr> issueHook_Action := ''created'',
       issueHook_Issue := zero_gitea_Issue \<lparr> gitea_Issue_Index := 2 \<rparr>,
       issueHook_Comment := \<lparr> gitea_Comment_ID = 8, gitea_Comment_Body = ''ok'' \<rparr>,
       issueHook_Repository := hello, issueHook_Sender := alice \<rparr>"

definition review_body :: bytes where
  \<open>review_body =
     ''{"action":"reviewed","number":1,"pull_request":{"number":1},"repository":{"name":"hello"},"sender":{"login":"alice","username":"alice"},"review":{"type":"pull_request_review_approved","content":"lgtm"}}''\<close>

definition review_payload :: pullRequestReviewHook where
  "review_payload =
     new_pullRequestReviewHook \<lparr> pullRequestReviewHook_Action := ''reviewed'',
       pullRequestReviewHook_Number := 1,
       pullRequestReviewHook_PullRequest :=
         zero_gitea_PullRequest \<lparr> gitea_PullRequest_Index := 1 \<rparr>,
       pullRequestReviewHook_Repository := hello,
       pullRequestReviewHook_Sender := alice,
       pullRequestReviewHook_Review :=
         \<lparr> pullRequestReviewPayload_Type = ''pull_request_review_approved'',
           pullRequestReviewPayload_Content = ''lgtm'' \<rparr> \<rparr>"

text \<open>
  Collaborators for the examples: the table decoders, conversions that copy the fields,
  and a signature check that accepts the key followed by the message (a stand-in for the
  keyed digest, enough to have signatures that pass and signatures that fail).
\<close>

definition example_collaborators :: collaborators where
  "example_collaborators =
     \<lparr> json_Unmarshal_pushHook =
         Unmarshal_table new_pushHook
           [(push_body, push_payload), (take 10000000 padded_push_body, push_payload)],
       json_Unmarshal_createHook =
         Unmarshal_table new_createHook
           [(create_tag_body, create_tag_payload),
            (create_repository_body, create_repository_payload)],
       json_Unmarshal_issueHook =
         Unmarshal_table new_issueHook
           [(pull_comment_body, pull_comment_payload),
            (issue_comment_body, issue_comment_payload)],
       json_Unmarshal_pullRequestHook = Unmarshal_table new_pullRequestHook [],
       json_Unmarshal_pullRequestReviewHook =
         Unmarshal_table new_pullRequestReviewHook [(review_body, review_payload)],
       hmac_Validate = (\<lambda>message key signature. signature = key @ message),
       convertRepository =
         (\<lambda>r. \<lparr> Repository_Namespace =
                   (case gitea_Repository_Owner r of
                      None \<Rightarrow> '''' | Some u \<Rightarrow> gitea_User_UserName u),
                 Repository_Name = gitea_Repository_Name r,
                 Repository_Branch = gitea_Repository_DefaultBranch r,
                 Repository_Clone = gitea_Repository_CloneURL r,
                 Repository_CloneSSH = gitea_Repository_SSHURL r \<rparr>),
       convertUser =
         (\<lambda>u. \<lparr> User_Login = gitea_User_UserName u, User_Name = gitea_User_FullName u,
                 User_Email = gitea_User_Email u, User_Avatar = gitea_User_AvatarURL u \<rparr>),
       convertIssue =
         (\<lambda>i. \<lparr> Issue_Number = gitea_Issue_Index i, Issue_Title = gitea_Issue_Title i,
                 Issue_Body = gitea_Issue_Body i \<rparr>),
       convertIssueComment =
         (\<lambda>c. \<lparr> Comment_ID = gitea_Comment_ID c, Comment_Body = gitea_Comment_Body c \<rparr>),
       convertPullRequest =
         (\<lambda>p. \<lparr> PullRequest_Number = gitea_PullRequest_Index p,
                 PullRequest_Title = gitea_PullRequest_Title p,
                 PullRequest_Body = gitea_PullRequest_Body p \<rparr>),
       convertPullRequestFromIssue =
         (\<lambda>i. \<lparr> PullRequest_Number = gitea_Issue_Index i,
                 PullRequest_Title = gitea_Issue_Title i,
                 PullRequest_Body = gitea_Issue_Body i \<rparr>) \<rparr>"

text \<open>
  A delivery with the event header, the body, the signature header (absent when empty)
  and the \<open>secret\<close> form value; and the resolver that answers one key for every hook.
\<close>

definition delivery :: "string \<Rightarrow> bytes \<Rightarrow> string \<Rightarrow> string \<Rightarrow> request" where
  "delivery event body signature form_secret =
     \<lparr> Body = body, BodyErr = None,
       Header =
         (\<lambda>k. if k = ''X-Gitea-Event'' then [event]
              else if k = ''X-Gitea-Signature'' \<and> signature \<noteq> '''' then [signature]
              else []),
       FormValue = (\<lambda>k. if k = ''secret'' then form_secret else '''') \<rparr>"

definition fixed_key :: "string \<Rightarrow> SecretFunc" where
  "fixed_key key hook = (key, None)"

section \<open>Properties\<close>

lemmas example_defs =
  example_collaborators_def delivery_def fixed_key_def Unmarshal_table_def
  Header_Get_def ReadAll_LimitReader_def

lemmas payload_defs =
  push_body_def push_payload_def create_tag_body_def create_tag_payload_def
  create_repository_body_def create_repository_payload_def
  pull_comment_body_def pull_comment_payload_def
  issue_comment_body_def issue_comment_payload_def
  review_body_def review_payload_def

lemmas parse_defs =
  Parse_switch_def parsePushHook_def parseCreateHook_def parseDeleteHook_def
  parseIssueHook_def parseIssueCommentHook_def parsePullRequestHook_def
  parsePullRequestReviewHook_def

subsection \<open>The flow of Parse\<close>

text \<open>A switch that ends without error has built a hook.\<close>

lemma Parse_switch_hook:
  "Parse_switch s event data = Inr (hook, secret, None) \<Longrightarrow> hook \<noteq> None"
  by (auto simp: parse_defs split: if_splits prod.splits)

text \<open>Once the body is read and the payload decoded, the rest is lines 59-90.\<close>

lemma Parse_decoded:
  "ReadAll_LimitReader req 10000000 = (data, None) \<Longrightarrow>
   Parse_switch s (Header_Get req ''X-Gitea-Event'') data = Inr (hook, secret, None) \<Longrightarrow>
   Parse s req fn = Parse_verify s req fn data hook secret"
  by (simp add: Parse_def)

text \<open>Conversely, a hook that \<^verbatim>\<open>Parse\<close> returns comes from a switch without error.\<close>

lemma Parse_returns_hook:
  assumes "Parse s req fn = (Some h, err)"
  shows "\<exists>secret. Parse_switch s (Header_Get req ''X-Gitea-Event'')
           (fst (ReadAll_LimitReader req 10000000)) = Inr (Some h, secret, None)"
  using assms
  by (auto simp: Parse_def Parse_verify_def Let_def
      split: prod.splits option.splits sum.splits if_splits)

lemma Header_Get_Body: "Header_Get (req \<lparr> Body := b \<rparr>) key = Header_Get req key"
  by (simp add: Header_Get_def)

lemma Parse_verify_Body:
  "Parse_verify s (req \<lparr> Body := b \<rparr>) fn data hook secret
   = Parse_verify s req fn data hook secret"
  by (simp add: Parse_verify_def Header_Get_Body Let_def split: prod.splits option.splits)

subsection \<open>Header signature\<close>

text \<open>
  Claim C1. When the body is read, the payload decodes, the resolver gives a non-empty key
  and the \<^verbatim>\<open>X-Gitea-Signature\<close> header is non-empty, \<^verbatim>\<open>Parse\<close> returns the hook, and
  its error is decided by \<^verbatim>\<open>hmac.Validate\<close> on the bytes read, the key and the header
  alone: \<^verbatim>\<open>ErrSignatureInvalid\<close> when the check fails, nil when it passes. The embedded
  secret and the form value are arbitrary here, so a secret equal to the key does not
  help a failing signature and a wrong secret does not hurt a passing one.
\<close>

theorem Parse_header_signature:
  assumes "ReadAll_LimitReader req 10000000 = (data, None)"
    and "Parse_switch s (Header_Get req ''X-Gitea-Event'') data = Inr (hook, secret, None)"
    and "fn hook = (key, None)"
    and "key \<noteq> ''''"
    and "Header_Get req ''X-Gitea-Signature'' \<noteq> ''''"
  shows "hook \<noteq> None \<and>
     Parse s req fn =
       (hook, if hmac_Validate s data key (Header_Get req ''X-Gitea-Signature'') then None
              else Some ErrSignatureInvalid)"
  using assms Parse_switch_hook[OF assms(2)]
  by (simp add: Parse_decoded Parse_verify_def Let_def)

text \<open>
  A push whose embedded secret is the key, with a forged header: rejected. The same push
  with a good header and a wrong form value: accepted.
\<close>

theorem Parse_header_signature_witness:
  "Parse example_collaborators (delivery ''push'' push_body ''forged'' '''')
     (fixed_key ''topsecret'')
   = (Some (PushHook (convertPushHook example_collaborators push_payload)),
      Some ErrSignatureInvalid)
   \<and> pushHook_Secret push_payload = ''topsecret''
   \<and> Parse example_collaborators
       (delivery ''push'' push_body (''topsecret'' @ push_body) ''other'')
       (fixed_key ''topsecret'')
   = (Some (PushHook (convertPushHook example_collaborators push_payload)), None)"
  using Parse_header_signature [of "delivery ''push'' push_body ''forged'' ''''" push_body
      example_collaborators "Some (PushHook (convertPushHook example_collaborators push_payload))"
      "''topsecret''" "fixed_key ''topsecret''" "''topsecret''"]
    Parse_header_signature [of "delivery ''push'' push_body (''topsecret'' @ push_body) ''other''"
      push_body example_collaborators
      "Some (PushHook (convertPushHook example_collaborators push_payload))"
      "''topsecret''" "fixed_key ''topsecret''" "''topsecret''"]
  by (simp add: example_defs parse_defs push_body_def push_payload_def padded_push_body_def)

subsection \<open>The body cap\<close>

lemma padded_push_body_read:
  "ReadAll_LimitReader (delivery event padded_push_body signature form_secret) 10000000
   = (take 10000000 padded_push_body, None)"
  by (simp add: ReadAll_LimitReader_def delivery_def padded_push_body_def)

lemma padded_push_body_neq: "take 10000000 padded_push_body \<noteq> push_body"
proof
  assume "take 10000000 padded_push_body = push_body"
  then have "length (take 10000000 padded_push_body) = length push_body"
    by simp
  then show False
    by (simp add: padded_push_body_def push_body_def)
qed

text \<open>
  Claim C2 as stated fails: a push whose body is longer than 10,000,000 bytes is not
  rejected. The limited reader stops at the cap, the first 10,000,000 bytes decode, and
  \<^verbatim>\<open>Parse\<close> returns the hook with a nil error.
\<close>

theorem Parse_oversized_body_counterexample:
  "10000000 < length padded_push_body
   \<and> Parse example_collaborators (delivery ''push'' padded_push_body '''' '''') (fixed_key '''')
     = (Some (PushHook (convertPushHook example_collaborators push_payload)), None)"
proof -
  have "10000000 < length padded_push_body"
    by (simp add: padded_push_body_def push_body_def)
  moreover have "Parse_switch example_collaborators ''push'' (take 10000000 padded_push_body)
      = Inr (Some (PushHook (convertPushHook example_collaborators push_payload)),
             pushHook_Secret push_payload, None)"
    using padded_push_body_neq
    by (simp add: Parse_switch_def parsePushHook_def example_collaborators_def
        Unmarshal_table_def)
  moreover have "Header_Get (delivery ''push'' padded_push_body '''' '''') ''X-Gitea-Event''
      = ''push''"
    by (simp add: Header_Get_def delivery_def)
  ultimately show ?thesis
    by (simp add: Parse_def padded_push_body_read Parse_verify_def fixed_key_def)
qed

text \<open>
  Claim C2, amended. The read of the body takes its first 10,000,000 bytes and nothing
  after them, and ends without error once the cap is reached; with the headers and form
  values of the request unchanged, the result of \<^verbatim>\<open>Parse\<close> is its result on the body
  cut at the cap. An oversized body is thus processed as its first 10,000,000 bytes, not
  rejected.
\<close>

theorem Parse_body_cap:
  "ReadAll_LimitReader req 10000000 =
     (take 10000000 (Body req), if 10000000 \<le> length (Body req) then None else BodyErr req)
   \<and> Parse s req fn = Parse s (req \<lparr> Body := take 10000000 (Body req) \<rparr>) fn"
  by (simp add: Parse_def ReadAll_LimitReader_def Header_Get_Body Parse_verify_Body
      split: sum.splits prod.splits option.splits)

subsection \<open>No key, no verification\<close>

text \<open>
  Claim C3. When the body is read, the payload decodes and the resolver returns the empty
  key with no error, \<^verbatim>\<open>Parse\<close> returns the hook and a nil error, whatever the signature
  header, the embedded secret, the form value and \<^verbatim>\<open>hmac.Validate\<close> are.
\<close>

theorem Parse_no_key:
  assumes "ReadAll_LimitReader req 10000000 = (data, None)"
    and "Parse_switch s (Header_Get req ''X-Gitea-Event'') data = Inr (hook, secret, None)"
    and "fn hook = ('''', None)"
  shows "hook \<noteq> None \<and> Parse s req fn = (hook, None)"
  using assms Parse_switch_hook[OF assms(2)]
  by (simp add: Parse_decoded Parse_verify_def Let_def)

theorem Parse_no_key_witness:
  "Parse example_collaborators (delivery ''create'' create_tag_body ''forged'' ''wrong'')
     (fixed_key '''')
   = (Some (TagHook (convertTagHook example_collaborators create_tag_payload ActionCreate)), None)"
  using Parse_no_key [of "delivery ''create'' create_tag_body ''forged'' ''wrong''"
      create_tag_body example_collaborators
      "Some (TagHook (convertTagHook example_collaborators create_tag_payload ActionCreate))"
      "''''" "fixed_key ''''"]
  by (simp add: example_defs parse_defs payload_defs)

subsection \<open>Unknown discriminators\<close>

text \<open>
  Claim C4. Once the body is read: an event header outside the seven case labels makes
  \<^verbatim>\<open>Parse\<close> return nil and \<^verbatim>\<open>UnknownWebhook\<close> with that header value; and for the
  events \<open>create\<close> and \<open>delete\<close>, a decoded \<^verbatim>\<open>ref_type\<close> that is neither \<open>tag\<close> nor
  \<open>branch\<close> makes it return nil and \<^verbatim>\<open>UnknownWebhook\<close> with that \<^verbatim>\<open>ref_type\<close>.
\<close>

theorem Parse_unknown_webhook:
  assumes "ReadAll_LimitReader req 10000000 = (data, None)"
  shows "(Header_Get req ''X-Gitea-Event'' \<notin> set supported_events \<longrightarrow>
            Parse s req fn = (None, Some (UnknownWebhook (Header_Get req ''X-Gitea-Event''))))
       \<and> ((Header_Get req ''X-Gitea-Event'' = ''create''
              \<or> Header_Get req ''X-Gitea-Event'' = ''delete'')
            \<and> createHook_RefType (fst (json_Unmarshal_createHook s data)) \<noteq> ''tag''
            \<and> createHook_RefType (fst (json_Unmarshal_createHook s data)) \<noteq> ''branch'' \<longrightarrow>
            Parse s req fn =
              (None, Some (UnknownWebhook
                 (createHook_RefType (fst (json_Unmarshal_createHook s data))))))"
  using assms
  by (auto simp: Parse_def supported_events_def Parse_switch_def parseCreateHook_def
      parseDeleteHook_def split: prod.splits)

theorem Parse_unknown_webhook_witness:
  "Parse example_collaborators (delivery ''unsupported_event'' ''{}'' '''' '''') (fixed_key '''')
   = (None, Some (UnknownWebhook ''unsupported_event''))
   \<and> Parse example_collaborators (delivery ''create'' create_repository_body '''' '''')
       (fixed_key '''')
   = (None, Some (UnknownWebhook ''repository''))
   \<and> Parse example_collaborators (delivery ''delete'' create_repository_body '''' '''')
       (fixed_key '''')
   = (None, Some (UnknownWebhook ''repository''))"
  using Parse_unknown_webhook [of "delivery ''unsupported_event'' ''{}'' '''' ''''" "''{}''"
      example_collaborators "fixed_key ''''"]
    Parse_unknown_webhook [of "delivery ''create'' create_repository_body '''' ''''"
      create_repository_body example_collaborators "fixed_key ''''"]
    Parse_unknown_webhook [of "delivery ''delete'' create_repository_body '''' ''''"
      create_repository_body example_collaborators "fixed_key ''''"]
  by (simp add: example_defs supported_events_def payload_defs)

subsection \<open>Repository and sender of a returned hook\<close>

lemma Parse_switch_snapshots:
  assumes "Parse_switch s event data = Inr (Some h, secret, e)"
  shows "Webhook_Repo h = convertRepository s (payload_Repository s event data)
     \<and> (case h of
          ReviewHook r \<Rightarrow>
            Webhook_Sender h = None
            \<and> Review_Author (ReviewHook_Review r) = convertUser s (payload_Sender s event data)
        | _ \<Rightarrow> Webhook_Sender h = Some (convertUser s (payload_Sender s event data)))"
  using assms
  by (auto simp: parse_defs payload_Repository_def payload_Sender_def
      convertPushHook_def convertTagHook_def convertBranchHook_def convertIssueHook_def
      convertIssueCommentHook_def convertPullRequestCommentHook_def convertPullRequestHook_def
      convertPullRequestReviewHook_def convertPullRequestReviewPayload_def
      split: if_splits prod.splits list.splits)

lemma Parse_review_example:
  "Parse example_collaborators (delivery ''reviewed'' review_body '''' '''') (fixed_key '''')
   = (Some (ReviewHook (convertPullRequestReviewHook example_collaborators review_payload)), None)"
  by (simp add: Parse_def Parse_verify_def example_defs parse_defs review_body_def)

lemma Parse_create_tag_example:
  "Parse example_collaborators (delivery ''create'' create_tag_body '''' '''') (fixed_key '''')
   = (Some (TagHook (convertTagHook example_collaborators create_tag_payload ActionCreate)), None)"
  by (simp add: Parse_def Parse_verify_def example_defs parse_defs payload_defs)

text \<open>
  Claim C5 as stated fails: a review delivery whose payload names its sender is accepted,
  and the hook returned has no \<^verbatim>\<open>Sender\<close>.
\<close>

theorem Parse_review_sender_counterexample:
  "Parse example_collaborators (delivery ''reviewed'' review_body '''' '''') (fixed_key '''')
   = (Some (ReviewHook (convertPullRequestReviewHook example_collaborators review_payload)), None)
   \<and> Webhook_Sender
       (ReviewHook (convertPullRequestReviewHook example_collaborators review_payload)) = None
   \<and> gitea_User_UserName (payload_Sender example_collaborators ''reviewed'' review_body)
     = ''alice''"
proof (intro conjI)
  show "Parse example_collaborators (delivery ''reviewed'' review_body '''' '''') (fixed_key '''')
    = (Some (ReviewHook (convertPullRequestReviewHook example_collaborators review_payload)),
       None)"
    by (rule Parse_review_example)
  show "Webhook_Sender
      (ReviewHook (convertPullRequestReviewHook example_collaborators review_payload)) = None"
    by simp
  show "gitea_User_UserName (payload_Sender example_collaborators ''reviewed'' review_body)
    = ''alice''"
    by (simp add: payload_Sender_def example_collaborators_def Unmarshal_table_def
        review_payload_def alice_def zero_gitea_User_def)
qed

text \<open>
  Claim C5, amended. Every hook that \<^verbatim>\<open>Parse\<close> returns carries, as \<^verbatim>\<open>Repo\<close>, the
  conversion of the payload's repository. Every hook other than a review hook carries, as
  \<^verbatim>\<open>Sender\<close>, the conversion of the payload's sender; a review hook has no \<^verbatim>\<open>Sender\<close>
  and carries the converted sender as \<^verbatim>\<open>Review.Author\<close>.
\<close>

theorem Parse_snapshots:
  assumes "Parse s req fn = (Some h, err)"
  shows "Webhook_Repo h =
       convertRepository s
         (payload_Repository s (Header_Get req ''X-Gitea-Event'')
            (fst (ReadAll_LimitReader req 10000000)))
     \<and> (case h of
          ReviewHook r \<Rightarrow>
            Webhook_Sender h = None
            \<and> Review_Author (ReviewHook_Review r) =
                convertUser s
                  (payload_Sender s (Header_Get req ''X-Gitea-Event'')
                     (fst (ReadAll_LimitReader req 10000000)))
        | _ \<Rightarrow>
            Webhook_Sender h =
              Some (convertUser s
                      (payload_Sender s (Header_Get req ''X-Gitea-Event'')
                         (fst (ReadAll_LimitReader req 10000000)))))"
proof -
  from Parse_returns_hook[OF assms] obtain secret where
    "Parse_switch s (Header_Get req ''X-Gitea-Event'') (fst (ReadAll_LimitReader req 10000000))
       = Inr (Some h, secret, None)"
    by blast
  then show ?thesis
    by (rule Parse_switch_snapshots)
qed

text \<open>A review delivery and a tag creation, both from \<open>alice\<close> on \<open>hello\<close>.\<close>

theorem Parse_snapshots_witness:
  "Webhook_Repo (ReviewHook (convertPullRequestReviewHook example_collaborators review_payload))
   = convertRepository example_collaborators hello
   \<and> Review_Author (ReviewHook_Review
        (convertPullRequestReviewHook example_collaborators review_payload))
   = convertUser example_collaborators alice
   \<and> Webhook_Repo (TagHook (convertTagHook example_collaborators create_tag_payload ActionCreate))
   = convertRepository example_collaborators hello
   \<and> Webhook_Sender
       (TagHook (convertTagHook example_collaborators create_tag_payload ActionCreate))
   = Some (convertUser example_collaborators alice)"
  using Parse_snapshots [OF Parse_review_example] Parse_snapshots [OF Parse_create_tag_example]
  by (simp add: payload_Sender_def payload_Repository_def example_defs review_body_def
      review_payload_def create_tag_body_def create_tag_payload_def
      create_repository_body_def)

subsection \<open>Push commits\<close>

text \<open>
  Claim C6. With an empty commit list the converted push hook has the pusher's user name
  as the login of both author and committer and the empty commit message; with exactly
  one commit, author, committer and message are those of that commit.
\<close>

theorem convertPushHook_commit:
  "(pushHook_Commits dst = [] \<longrightarrow>
      Signature_Login (Commit_Author (PushHook_Commit (convertPushHook s dst)))
        = gitea_User_UserName (pushHook_Pusher dst)
      \<and> Signature_Login (Commit_Committer (PushHook_Commit (convertPushHook s dst)))
        = gitea_User_UserName (pushHook_Pusher dst)
      \<and> Commit_Message (PushHook_Commit (convertPushHook s dst)) = '''')
   \<and> (\<forall>c. pushHook_Commits dst = [c] \<longrightarrow>
      Commit_Author (PushHook_Commit (convertPushHook s dst))
        = \<lparr> Signature_Login = signature_Username (commit_Author c),
            Signature_Email = signature_Email (commit_Author c),
            Signature_Name = signature_Name (commit_Author c),
            Signature_Date = commit_Timestamp c \<rparr>
      \<and> Commit_Committer (PushHook_Commit (convertPushHook s dst))
        = \<lparr> Signature_Login = signature_Username (commit_Committer c),
            Signature_Email = signature_Email (commit_Committer c),
            Signature_Name = signature_Name (commit_Committer c),
            Signature_Date = commit_Timestamp c \<rparr>
      \<and> Commit_Message (PushHook_Commit (convertPushHook s dst)) = commit_Message c)"
  by (simp add: convertPushHook_def)

theorem convertPushHook_commit_witness:
  "Signature_Login (Commit_Author (PushHook_Commit
      (convertPushHook example_collaborators push_payload))) = ''alice''
   \<and> Signature_Login (Commit_Committer (PushHook_Commit
      (convertPushHook example_collaborators push_payload))) = ''alice''
   \<and> Commit_Message (PushHook_Commit (convertPushHook example_collaborators push_payload)) = ''''
   \<and> Signature_Login (Commit_Author (PushHook_Commit
      (convertPushHook example_collaborators
         (push_payload \<lparr> pushHook_Commits := [bob_commit] \<rparr>)))) = ''bob''
   \<and> Signature_Login (Commit_Committer (PushHook_Commit
      (convertPushHook example_collaborators
         (push_payload \<lparr> pushHook_Commits := [bob_commit] \<rparr>)))) = ''carol''
   \<and> Commit_Message (PushHook_Commit
      (convertPushHook example_collaborators
         (push_payload \<lparr> pushHook_Commits := [bob_commit] \<rparr>))) = ''fix typo''"
  using convertPushHook_commit [of push_payload example_collaborators]
    convertPushHook_commit [of "push_payload \<lparr> pushHook_Commits := [bob_commit] \<rparr>"
      example_collaborators]
  by (simp add: push_payload_def new_pushHook_def alice_def zero_gitea_User_def bob_commit_def)

subsection \<open>Decoding errors\<close>

text \<open>
  Where the decoder's error reaches the caller: on every path but the default branch of
  \<^verbatim>\<open>parseCreateHook\<close> and \<^verbatim>\<open>parseDeleteHook\<close>.
\<close>

lemma Parse_decode_error:
  assumes "ReadAll_LimitReader req 10000000 = (data, None)"
    and "Header_Get req ''X-Gitea-Event'' = event"
  shows "event = ''push'' \<Longrightarrow> snd (json_Unmarshal_pushHook s data) = Some e
           \<Longrightarrow> Parse s req fn = (None, Some e)"
    and "event = ''issues'' \<or> event = ''issue_comment'' \<Longrightarrow>
           snd (json_Unmarshal_issueHook s data) = Some e \<Longrightarrow> Parse s req fn = (None, Some e)"
    and "event = ''pull_request'' \<Longrightarrow> snd (json_Unmarshal_pullRequestHook s data) = Some e
           \<Longrightarrow> Parse s req fn = (None, Some e)"
    and "event = ''reviewed'' \<Longrightarrow> snd (json_Unmarshal_pullRequestReviewHook s data) = Some e
           \<Longrightarrow> Parse s req fn = (None, Some e)"
    and "event = ''create'' \<or> event = ''delete'' \<Longrightarrow>
           snd (json_Unmarshal_createHook s data) = Some e \<Longrightarrow>
           createHook_RefType (fst (json_Unmarshal_createHook s data)) = ''tag''
           \<or> createHook_RefType (fst (json_Unmarshal_createHook s data)) = ''branch'' \<Longrightarrow>
           Parse s req fn = (None, Some e)"
  using assms
  by (auto simp: Parse_def parse_defs split: prod.splits)

text \<open>
  Claim C7 at the input where the code departs from it: a \<open>create\<close> delivery whose body
  is not JSON. The decoder reports its error and leaves the struct at its zero value;
  \<^verbatim>\<open>parseCreateHook\<close> takes the default branch on the empty \<^verbatim>\<open>ref_type\<close> and returns
  \<^verbatim>\<open>UnknownWebhook\<close> with the empty name in place of the decoder's error.
\<close>

theorem Parse_create_decode_error_masked:
  "json_Unmarshal_createHook example_collaborators ''{''
   = (new_createHook, Some (OtherError ''invalid character''))
   \<and> Parse example_collaborators (delivery ''create'' ''{'' '''' '''') (fixed_key '''')
     = (None, Some (UnknownWebhook ''''))"
  by (simp add: Parse_def example_defs parse_defs payload_defs new_createHook_def)

subsection \<open>Comments on pull requests\<close>

text \<open>
  Claim C8. For an \<open>issue_comment\<close> delivery that is read and decoded, the hook that
  \<^verbatim>\<open>Parse\<close> returns is the pull request comment hook when the issue of the payload has
  a \<^verbatim>\<open>pull_request\<close> reference, and the issue comment hook when it has none. This is so
  whatever the outcome of the signature check is.
\<close>

theorem Parse_issue_comment:
  assumes "ReadAll_LimitReader req 10000000 = (data, None)"
    and "Header_Get req ''X-Gitea-Event'' = ''issue_comment''"
    and "json_Unmarshal_issueHook s data = (dst, None)"
  shows "fst (Parse s req fn) =
     Some (if gitea_Issue_PullRequest (issueHook_Issue dst) \<noteq> None
           then PullRequestCommentHook (convertPullRequestCommentHook s dst)
           else IssueCommentHook (convertIssueCommentHook s dst))"
  using assms
  by (simp add: Parse_def Parse_switch_def parseIssueCommentHook_def Parse_verify_def Let_def
      split: prod.splits option.splits)

theorem Parse_issue_comment_witness:
  "fst (Parse example_collaborators (delivery ''issue_comment'' pull_comment_body '''' '''')
          (fixed_key ''topsecret''))
   = Some (PullRequestCommentHook
             (convertPullRequestCommentHook example_collaborators pull_comment_payload))
   \<and> fst (Parse example_collaborators (delivery ''issue_comment'' issue_comment_body '''' '''')
          (fixed_key ''topsecret''))
   = Some (IssueCommentHook (convertIssueCommentHook example_collaborators issue_comment_payload))"
  using Parse_issue_comment [of "delivery ''issue_comment'' pull_comment_body '''' ''''"
      pull_comment_body example_collaborators pull_comment_payload "fixed_key ''topsecret''"]
    Parse_issue_comment [of "delivery ''issue_comment'' issue_comment_body '''' ''''"
      issue_comment_body example_collaborators issue_comment_payload "fixed_key ''topsecret''"]
  by (simp add: example_defs payload_defs new_issueHook_def zero_gitea_Issue_def)

subsection \<open>The action mapper\<close>

text \<open>
  Claim C9. \<^verbatim>\<open>convertAction\<close> is a function on all strings: \<open>close\<close> and \<open>closed\<close>
  both give \<open>Close\<close>, the comparison is exact (\<open>Closed\<close> and \<open>CLOSE\<close> are unknown),
  and every string that is not a case label, \<open>archived\<close> among them, gives the zero
  value \<open>Unknown\<close>; the result is an action, never an error.
\<close>

theorem convertAction_many_to_one:
  "convertAction ''close'' = ActionClose
   \<and> convertAction ''closed'' = ActionClose
   \<and> convertAction ''Closed'' = ActionUnknown
   \<and> convertAction ''CLOSE'' = ActionUnknown
   \<and> convertAction ''archived'' = ActionUnknown
   \<and> (\<forall>src. src \<notin> set convertAction_verbs \<longrightarrow> convertAction src = ActionUnknown)"
  by (simp add: convertAction_verbs_def convertAction_def)

theorem convertAction_many_to_one_witness:
  "''archived'' \<notin> set convertAction_verbs \<and> convertAction ''archived'' = ActionUnknown"
  using convertAction_many_to_one by (simp add: convertAction_verbs_def)

subsection \<open>The secret as a form value\<close>

text \<open>
  Claim C10. When the payload carries no embedded secret (any event but \<open>push\<close>, or a
  push with an empty \<^verbatim>\<open>secret\<close>), the key is non-empty and there is no signature
  header, \<^verbatim>\<open>Parse\<close> compares the \<open>secret\<close> form value of the request with the key: the
  delivery is accepted when they are equal and \<^verbatim>\<open>ErrSignatureInvalid\<close> is returned
  otherwise.
\<close>

theorem Parse_form_secret:
  assumes "ReadAll_LimitReader req 10000000 = (data, None)"
    and "Parse_switch s (Header_Get req ''X-Gitea-Event'') data = Inr (hook, secret, None)"
    and "Header_Get req ''X-Gitea-Event'' \<noteq> ''push''
         \<or> pushHook_Secret (fst (json_Unmarshal_pushHook s data)) = ''''"
    and "fn hook = (key, None)"
    and "key \<noteq> ''''"
    and "Header_Get req ''X-Gitea-Signature'' = ''''"
  shows "hook \<noteq> None \<and> secret = '''' \<and>
     Parse s req fn =
       (hook, if FormValue req ''secret'' = key then None else Some ErrSignatureInvalid)"
proof -
  have "secret = ''''"
    using assms(2,3)
    by (auto simp: parse_defs split: if_splits prod.splits)
  with assms Parse_switch_hook[OF assms(2)] show ?thesis
    by (simp add: Parse_decoded Parse_verify_def Let_def)
qed

theorem Parse_form_secret_witness:
  "Parse example_collaborators (delivery ''create'' create_tag_body '''' ''topsecret'')
     (fixed_key ''topsecret'')
   = (Some (TagHook (convertTagHook example_collaborators create_tag_payload ActionCreate)), None)
   \<and> Parse example_collaborators (delivery ''create'' create_tag_body '''' ''guess'')
     (fixed_key ''topsecret'')
   = (Some (TagHook (convertTagHook example_collaborators create_tag_payload ActionCreate)),
      Some ErrSignatureInvalid)"
  using Parse_form_secret [of "delivery ''create'' create_tag_body '''' ''topsecret''"
      create_tag_body example_collaborators
      "Some (TagHook (convertTagHook example_collaborators create_tag_payload ActionCreate))"
      "''''" "fixed_key ''topsecret''" "''topsecret''"]
    Parse_form_secret [of "delivery ''create'' create_tag_body '''' ''guess''"
      create_tag_body example_collaborators
      "Some (TagHook (convertTagHook example_collaborators create_tag_payload ActionCreate))"
      "''''" "fixed_key ''topsecret''" "''topsecret''"]
  by (simp add: example_defs parse_defs payload_defs)

end
